theory Spec2Isabelle
  imports Main "HOL-Library.AList"
begin

section \<open>The JavaScript values the sources rely on\<close>

text \<open>
  A JavaScript \<open>Map\<close> keeps its keys unique and in insertion order: \<open>set\<close> on a key
  that is present replaces the associated entry in place, \<open>set\<close> on a new key appends,
  \<open>delete\<close> reports whether the key was present. It is modelled as an association
  list; \<open>Map_wf\<close> says that the keys are unique, which every operation preserves.
\<close>

type_synonym ('k, 'v) js_map = "('k \<times> 'v) list"

definition Map_wf :: "('k, 'v) js_map \<Rightarrow> bool" where
  "Map_wf m = distinct (map fst m)"

definition Map_get :: "('k, 'v) js_map \<Rightarrow> 'k \<Rightarrow> 'v option" where
  "Map_get m k = map_of m k"

definition Map_has :: "('k, 'v) js_map \<Rightarrow> 'k \<Rightarrow> bool" where
  "Map_has m k = (map_of m k \<noteq> None)"

definition Map_set :: "('k, 'v) js_map \<Rightarrow> 'k \<Rightarrow> 'v \<Rightarrow> ('k, 'v) js_map" where
  "Map_set m k v = AList.update k v m"

definition Map_delete :: "('k, 'v) js_map \<Rightarrow> 'k \<Rightarrow> bool \<times> ('k, 'v) js_map" where
  "Map_delete m k = (Map_has m k, AList.delete k m)"

definition Map_clear :: "('k, 'v) js_map \<Rightarrow> ('k, 'v) js_map" where
  "Map_clear m = []"

definition Map_size :: "('k, 'v) js_map \<Rightarrow> nat" where
  "Map_size m = length m"

definition Map_keys :: "('k, 'v) js_map \<Rightarrow> 'k list" where
  "Map_keys m = map fst m"

definition Map_values :: "('k, 'v) js_map \<Rightarrow> 'v list" where
  "Map_values m = map snd m"

text \<open>
  \<open>x ?? d\<close>: the value of an optional argument or field, \<open>d\<close> when it is
  \<open>undefined\<close>. An empty string is a value, not \<open>undefined\<close>.
\<close>

definition nullish :: "'a option \<Rightarrow> 'a \<Rightarrow> 'a" where
  "nullish x d = (case x of None \<Rightarrow> d | Some v \<Rightarrow> v)"

text \<open>\<open>Array.prototype.join\<close> on an array of strings.\<close>

fun join :: "string \<Rightarrow> string list \<Rightarrow> string" where
  "join sep [] = []"
| "join sep [x] = x"
| "join sep (x # y # ys) = x @ sep @ join sep (y # ys)"

text \<open>The decimal numeral a template literal prints for an array length.\<close>

definition digit :: "nat \<Rightarrow> char" where
  "digit d =
     (if d = 0 then CHR ''0'' else if d = 1 then CHR ''1'' else if d = 2 then CHR ''2''
      else if d = 3 then CHR ''3'' else if d = 4 then CHR ''4'' else if d = 5 then CHR ''5''
      else if d = 6 then CHR ''6'' else if d = 7 then CHR ''7'' else if d = 8 then CHR ''8''
      else CHR ''9'')"

function string_of_nat :: "nat \<Rightarrow> string" where
  "string_of_nat n =
     (if n < 10 then [digit n] else string_of_nat (n div 10) @ [digit (n mod 10)])"
  by pat_completeness auto
termination
  by (relation "measure (\<lambda>n. n)") auto

definition quote :: string where
  "quote = [CHR 0x27]"

definition newline :: string where
  "newline = [CHR 0x0A]"

section \<open>SecretCache\<close>

text \<open>
  \<open>Date.now()\<close> is an integer count of milliseconds; every operation that reads the
  clock takes the reading as its argument \<open>now\<close>. The TTL is taken as an integer count
  of milliseconds as well (\<open>None\<close> when the constructor got no TTL).
\<close>

record CacheEntry =
  entry_value :: string
  cachedAt :: int

record SecretCache =
  cache :: "(string, CacheEntry) js_map"
  ttlMs :: "int option"

definition SecretCache_new :: "int option \<Rightarrow> SecretCache" where
  "SecretCache_new ttl = \<lparr>cache = [], ttlMs = ttl\<rparr>"

definition getCacheKey :: "string \<Rightarrow> string \<Rightarrow> string option \<Rightarrow> string" where
  "getCacheKey backend name version =
     backend @ '':'' @ name @ '':'' @ nullish version ''latest''"

definition SecretCache_get ::
  "SecretCache \<Rightarrow> string \<Rightarrow> string \<Rightarrow> string option \<Rightarrow> int \<Rightarrow> string option \<times> SecretCache" where
  "SecretCache_get c backend name version now =
     (let key = getCacheKey backend name version in
      case Map_get (cache c) key of
        None \<Rightarrow> (None, c)
      | Some entry \<Rightarrow>
          (case ttlMs c of
             None \<Rightarrow> (Some (entry_value entry), c)
           | Some ttl \<Rightarrow>
               if now - cachedAt entry > ttl
               then (None, c\<lparr>cache := snd (Map_delete (cache c) key)\<rparr>)
               else (Some (entry_value entry), c)))"

definition SecretCache_set ::
  "SecretCache \<Rightarrow> string \<Rightarrow> string \<Rightarrow> string \<Rightarrow> string option \<Rightarrow> int \<Rightarrow> SecretCache" where
  "SecretCache_set c backend name v version now =
     (let key = getCacheKey backend name version in
      c\<lparr>cache := Map_set (cache c) key \<lparr>entry_value = v, cachedAt = now\<rparr>\<rparr>)"

definition SecretCache_has ::
  "SecretCache \<Rightarrow> string \<Rightarrow> string \<Rightarrow> string option \<Rightarrow> int \<Rightarrow> bool \<times> SecretCache" where
  "SecretCache_has c backend name version now =
     (case SecretCache_get c backend name version now of (r, c') \<Rightarrow> (r \<noteq> None, c'))"

definition SecretCache_delete ::
  "SecretCache \<Rightarrow> string \<Rightarrow> string \<Rightarrow> string option \<Rightarrow> bool \<times> SecretCache" where
  "SecretCache_delete c backend name version =
     (let key = getCacheKey backend name version in
      case Map_delete (cache c) key of (r, m) \<Rightarrow> (r, c\<lparr>cache := m\<rparr>))"

definition SecretCache_clear :: "SecretCache \<Rightarrow> SecretCache" where
  "SecretCache_clear c = c\<lparr>cache := Map_clear (cache c)\<rparr>"

definition SecretCache_size :: "SecretCache \<Rightarrow> nat" where
  "SecretCache_size c = Map_size (cache c)"

text \<open>Whether an entry stored at \<open>t0\<close> is past the cache's TTL at \<open>t1\<close>.\<close>

definition expired :: "SecretCache \<Rightarrow> int \<Rightarrow> int \<Rightarrow> bool" where
  "expired c t0 t1 = (case ttlMs c of None \<Rightarrow> False | Some ttl \<Rightarrow> t1 - t0 > ttl)"

section \<open>Errors\<close>

text \<open>
  The values the sources throw: the two error classes of the package, a plain
  \<open>Error\<close> built from a message, and a transport error of the cloud client that is
  thrown on unchanged (its \<open>code\<close> and \<open>message\<close> properties, either of which may be
  missing).
\<close>

datatype error =
    SecretNotFoundError string string "string option"
  | SecretAccessDeniedError string string "string option"
  | Error string
  | TransportError "int option" "string option"

text \<open>A string used as a condition: \<open>undefined\<close> and the empty string are falsy.\<close>

definition truthy :: "string option \<Rightarrow> bool" where
  "truthy x = (case x of None \<Rightarrow> False | Some v \<Rightarrow> v \<noteq> [])"

fun message :: "error \<Rightarrow> string" where
  "message (SecretNotFoundError secretName backend version) =
     (let versionInfo = (if truthy version then '' (version: '' @ the version @ '')'' else [])
      in ''Secret '' @ quote @ secretName @ quote @ '' not found in backend '' @ quote @ backend
           @ quote @ versionInfo)"
| "message (SecretAccessDeniedError secretName backend reason) =
     (let reasonInfo = (if truthy reason then '': '' @ the reason else [])
      in ''Access denied to secret '' @ quote @ secretName @ quote @ '' in backend '' @ quote
           @ backend @ quote @ reasonInfo)"
| "message (Error msg) = msg"
| "message (TransportError code msg) = nullish msg ''undefined''"

section \<open>The backend interface and the in-memory backend\<close>

record SecretBackend =
  backend_name :: string
  backend_get :: "string \<Rightarrow> string option \<Rightarrow> error + string"
  backend_getLatest :: "string \<Rightarrow> error + string"

text \<open>
  The in-memory backend: its \<open>name\<close> property and its table from secret name to the
  table from version to secret.
\<close>

record InMemorySecretBackend =
  mem_name :: string
  secrets :: "(string, (string, string) js_map) js_map"

definition InMemory_set ::
  "InMemorySecretBackend \<Rightarrow> string \<Rightarrow> string \<Rightarrow> string option \<Rightarrow> InMemorySecretBackend" where
  "InMemory_set b name v version_arg =
     (let version = nullish version_arg ''latest'';
          secrets1 = (if \<not> Map_has (secrets b) name then Map_set (secrets b) name []
                      else secrets b)
      in b\<lparr>secrets := Map_set secrets1 name (Map_set (the (Map_get secrets1 name)) version v)\<rparr>)"

definition InMemory_new :: "(string \<times> string) list option \<Rightarrow> InMemorySecretBackend" where
  "InMemory_new initialSecrets =
     (case initialSecrets of
        None \<Rightarrow> \<lparr>mem_name = ''memory'', secrets = []\<rparr>
      | Some entries \<Rightarrow>
          foldl (\<lambda>b (name, v). InMemory_set b name v None)
                \<lparr>mem_name = ''memory'', secrets = []\<rparr> entries)"

definition InMemory_get ::
  "InMemorySecretBackend \<Rightarrow> string \<Rightarrow> string option \<Rightarrow> error + string" where
  "InMemory_get b name version =
     (case Map_get (secrets b) name of
        None \<Rightarrow> Inl (SecretNotFoundError name (mem_name b) version)
      | Some secretVersions \<Rightarrow>
          (let versionId = nullish version ''latest'' in
           case Map_get secretVersions versionId of
             None \<Rightarrow> Inl (SecretNotFoundError name (mem_name b) version)
           | Some v \<Rightarrow> Inr v))"

definition InMemory_getLatest :: "InMemorySecretBackend \<Rightarrow> string \<Rightarrow> error + string" where
  "InMemory_getLatest b name = InMemory_get b name (Some ''latest'')"

definition InMemory_has :: "InMemorySecretBackend \<Rightarrow> string \<Rightarrow> string option \<Rightarrow> bool" where
  "InMemory_has b name version_arg =
     (let version = nullish version_arg ''latest'' in
      case Map_get (secrets b) name of
        None \<Rightarrow> False
      | Some secretVersions \<Rightarrow> Map_has secretVersions version)"

definition InMemory_delete ::
  "InMemorySecretBackend \<Rightarrow> string \<Rightarrow> string option \<Rightarrow> bool \<times> InMemorySecretBackend" where
  "InMemory_delete b name version_arg =
     (case version_arg of
        None \<Rightarrow> (case Map_delete (secrets b) name of (r, m) \<Rightarrow> (r, b\<lparr>secrets := m\<rparr>))
      | Some version \<Rightarrow>
          (case Map_get (secrets b) name of
             None \<Rightarrow> (False, b)
           | Some secretVersions \<Rightarrow>
               (case Map_delete secretVersions version of
                  (deleted, secretVersions') \<Rightarrow>
                    if Map_size secretVersions' = 0
                    then (deleted, b\<lparr>secrets := snd (Map_delete (secrets b) name)\<rparr>)
                    else (deleted, b\<lparr>secrets := Map_set (secrets b) name secretVersions'\<rparr>))))"

definition InMemory_clear :: "InMemorySecretBackend \<Rightarrow> InMemorySecretBackend" where
  "InMemory_clear b = b\<lparr>secrets := Map_clear (secrets b)\<rparr>"

definition InMemory_size :: "InMemorySecretBackend \<Rightarrow> nat" where
  "InMemory_size b = Map_size (secrets b)"

definition getSecretNames :: "InMemorySecretBackend \<Rightarrow> string list" where
  "getSecretNames b = Map_keys (secrets b)"

text \<open>The in-memory backend seen through the backend interface.\<close>

definition InMemory_backend :: "InMemorySecretBackend \<Rightarrow> SecretBackend" where
  "InMemory_backend b =
     \<lparr>backend_name = mem_name b, backend_get = InMemory_get b,
      backend_getLatest = InMemory_getLatest b\<rparr>"

text \<open>
  The operations that change the in-memory store, and a run of them from the store
  the constructor builds.
\<close>

datatype store_op =
    OpSet string string "string option"
  | OpDelete string "string option"
  | OpClear

fun apply_store_op :: "InMemorySecretBackend \<Rightarrow> store_op \<Rightarrow> InMemorySecretBackend" where
  "apply_store_op b (OpSet name v version) = InMemory_set b name v version"
| "apply_store_op b (OpDelete name version) = snd (InMemory_delete b name version)"
| "apply_store_op b OpClear = InMemory_clear b"

definition run_store_ops ::
  "(string \<times> string) list option \<Rightarrow> store_op list \<Rightarrow> InMemorySecretBackend" where
  "run_store_ops initialSecrets ops = foldl apply_store_op (InMemory_new initialSecrets) ops"

text \<open>No secret name of the store is left with an empty table of versions.\<close>

definition no_empty_versions :: "InMemorySecretBackend \<Rightarrow> bool" where
  "no_empty_versions b = list_all (\<lambda>(name, versions). versions \<noteq> []) (secrets b)"

section \<open>The cloud backend\<close>

text \<open>
  The cloud client is outside the repository: \<open>accessSecretVersion\<close> is taken as a
  parameter, from the path of a secret version to the error the call throws or to the
  \<open>payload.data\<close> of its response (text, bytes, or missing). So is the UTF-8 decoding
  of a byte payload.
\<close>

record GrpcError =
  grpc_code :: "int option"
  grpc_message :: "string option"

datatype payload = PayloadText string | PayloadBytes "nat list"

record GcpSecretManagerBackend =
  projectId :: string
  accessSecretVersion :: "string \<Rightarrow> GrpcError + payload option"
  utf8_decode :: "nat list \<Rightarrow> string"

definition Gcp_get ::
  "GcpSecretManagerBackend \<Rightarrow> string \<Rightarrow> string option \<Rightarrow> error + string" where
  "Gcp_get g name version =
     (let versionId = nullish version ''latest'';
          secretPath = ''projects/'' @ projectId g @ ''/secrets/'' @ name @ ''/versions/''
                         @ versionId
      in case accessSecretVersion g secretPath of
           Inl grpcError \<Rightarrow>
             if grpc_code grpcError = Some 5 then Inl (SecretNotFoundError name ''gcp'' version)
             else if grpc_code grpcError = Some 7
             then Inl (SecretAccessDeniedError name ''gcp'' (grpc_message grpcError))
             else Inl (TransportError (grpc_code grpcError) (grpc_message grpcError))
         | Inr None \<Rightarrow> Inl (SecretNotFoundError name ''gcp'' version)
         | Inr (Some (PayloadText t)) \<Rightarrow>
             if t = [] then Inl (SecretNotFoundError name ''gcp'' version) else Inr t
         | Inr (Some (PayloadBytes bs)) \<Rightarrow> Inr (utf8_decode g bs))"

definition Gcp_getLatest :: "GcpSecretManagerBackend \<Rightarrow> string \<Rightarrow> error + string" where
  "Gcp_getLatest g name = Gcp_get g name (Some ''latest'')"

definition Gcp_backend :: "GcpSecretManagerBackend \<Rightarrow> SecretBackend" where
  "Gcp_backend g =
     \<lparr>backend_name = ''gcp'', backend_get = Gcp_get g, backend_getLatest = Gcp_getLatest g\<rparr>"

section \<open>SecretRegistry\<close>

record InjectSecretOptions =
  opt_version :: "string option"
  opt_backend :: "string option"

record SecretRequirement =
  req_name :: string
  req_version :: "string option"
  req_backend :: "string option"
  req_token :: string

type_synonym SecretRegistry = "(string, SecretRequirement) js_map"

definition SECRET_TOKEN_PREFIX :: string where
  "SECRET_TOKEN_PREFIX = ''SECRET''"

definition getSecretToken :: "string \<Rightarrow> InjectSecretOptions option \<Rightarrow> string" where
  "getSecretToken name options_arg =
     (let backend = nullish (Option.bind options_arg opt_backend) ''default'';
          version = nullish (Option.bind options_arg opt_version) ''latest''
      in SECRET_TOKEN_PREFIX @ ''_'' @ backend @ ''_'' @ name @ ''_'' @ version)"

definition register ::
  "SecretRegistry \<Rightarrow> string \<Rightarrow> InjectSecretOptions option \<Rightarrow> SecretRequirement \<times> SecretRegistry" where
  "register r name options_arg =
     (let token = getSecretToken name options_arg;
          requirement = \<lparr>req_name = name, req_version = Option.bind options_arg opt_version,
                         req_backend = Option.bind options_arg opt_backend, req_token = token\<rparr>
      in (requirement, Map_set r token requirement))"

definition getAll :: "SecretRegistry \<Rightarrow> SecretRequirement list" where
  "getAll r = Map_values r"

definition registry_clear :: "SecretRegistry \<Rightarrow> SecretRegistry" where
  "registry_clear r = Map_clear r"

definition registry_size :: "SecretRegistry \<Rightarrow> nat" where
  "registry_size r = Map_size r"

text \<open>The tuple the token is derived from.\<close>

definition token_tuple :: "string \<Rightarrow> InjectSecretOptions option \<Rightarrow> string \<times> string \<times> string" where
  "token_tuple name options_arg =
     (nullish (Option.bind options_arg opt_backend) ''default'', name,
      nullish (Option.bind options_arg opt_version) ''latest'')"

section \<open>SecretManagerService\<close>

record SecretManagerModuleOptions =
  defaultBackend :: string
  cacheEnabled :: "bool option"
  cacheTTL :: "int option"
  validateOnStartup :: "bool option"
  gcpProjectId :: "string option"
  inMemorySecrets :: "(string \<times> string) list option"
  debug :: "bool option"

record SecretManagerService =
  options :: SecretManagerModuleOptions
  backends :: "(string, SecretBackend) js_map"
  secretCache :: SecretCache

text \<open>
  The constructor. \<open>gcp\<close> builds the cloud backend for a project identifier. Log
  lines and tracing spans are left out throughout: they change neither what is
  returned nor what is thrown.
\<close>

definition initializeBackends ::
  "SecretManagerModuleOptions \<Rightarrow> (string \<Rightarrow> SecretBackend) \<Rightarrow> (string, SecretBackend) js_map" where
  "initializeBackends opts gcp =
     (let backends0 = (if truthy (gcpProjectId opts)
                       then Map_set [] ''gcp'' (gcp (the (gcpProjectId opts))) else []);
          memoryBackend = InMemory_new (inMemorySecrets opts)
      in Map_set backends0 ''memory'' (InMemory_backend memoryBackend))"

definition SecretManagerService_new ::
  "SecretManagerModuleOptions \<Rightarrow> (string \<Rightarrow> SecretBackend) \<Rightarrow> SecretManagerService" where
  "SecretManagerService_new opts gcp =
     (let cacheEnabled' = (cacheEnabled opts \<noteq> Some False)
      in \<lparr>options = opts,
          backends = initializeBackends opts gcp,
          secretCache = SecretCache_new (if cacheEnabled' then cacheTTL opts else None)\<rparr>)"

definition getBackend :: "SecretManagerService \<Rightarrow> string option \<Rightarrow> error + SecretBackend" where
  "getBackend s name =
     (let backendName = nullish name (defaultBackend (options s)) in
      case Map_get (backends s) backendName of
        None \<Rightarrow>
          Inl (Error (''Unknown secret backend: '' @ quote @ backendName @ quote
                        @ ''. Available backends: '' @ join '', '' (Map_keys (backends s))))
      | Some backend \<Rightarrow> Inr backend)"

text \<open>
  \<open>getInternal\<close> reads the clock twice when caching is enabled: \<open>now\<close> at the cache
  lookup, \<open>now'\<close> when the backend has answered and the secret is stored.
  \<open>getInternal_fetch\<close> is its second half, from the call of the backend on.
\<close>

definition getInternal_fetch ::
  "SecretManagerService \<Rightarrow> string \<Rightarrow> string \<Rightarrow> SecretBackend \<Rightarrow> int
     \<Rightarrow> (error + string) \<times> SecretManagerService" where
  "getInternal_fetch s name version backend now' =
     (case backend_get backend name (Some version) of
        Inl e \<Rightarrow> (Inl e, s)
      | Inr v \<Rightarrow>
          if cacheEnabled (options s) \<noteq> Some False
          then (Inr v, s\<lparr>secretCache :=
                           SecretCache_set (secretCache s) (backend_name backend) name v
                             (Some version) now'\<rparr>)
          else (Inr v, s))"

definition getInternal ::
  "SecretManagerService \<Rightarrow> string \<Rightarrow> string \<Rightarrow> SecretBackend \<Rightarrow> int \<Rightarrow> int
     \<Rightarrow> (error + string) \<times> SecretManagerService" where
  "getInternal s name version backend now now' =
     (if cacheEnabled (options s) \<noteq> Some False
      then (case SecretCache_get (secretCache s) (backend_name backend) name (Some version) now of
              (Some cached, c) \<Rightarrow> (Inr cached, s\<lparr>secretCache := c\<rparr>)
            | (None, c) \<Rightarrow> getInternal_fetch (s\<lparr>secretCache := c\<rparr>) name version backend now')
      else getInternal_fetch s name version backend now')"

definition service_get ::
  "SecretManagerService \<Rightarrow> string \<Rightarrow> string option \<Rightarrow> string option \<Rightarrow> int \<Rightarrow> int
     \<Rightarrow> (error + string) \<times> SecretManagerService" where
  "service_get s name version backendName now now' =
     (case getBackend s backendName of
        Inl e \<Rightarrow> (Inl e, s)
      | Inr backend \<Rightarrow>
          (let resolvedVersion = nullish version ''latest''
           in getInternal s name resolvedVersion backend now now'))"

definition service_getLatest ::
  "SecretManagerService \<Rightarrow> string \<Rightarrow> string option \<Rightarrow> int \<Rightarrow> int
     \<Rightarrow> (error + string) \<times> SecretManagerService" where
  "service_getLatest s name backendName now now' =
     service_get s name (Some ''latest'') backendName now now'"

definition clearCache :: "SecretManagerService \<Rightarrow> SecretManagerService" where
  "clearCache s = s\<lparr>secretCache := SecretCache_clear (secretCache s)\<rparr>"

definition registerBackend :: "SecretManagerService \<Rightarrow> SecretBackend \<Rightarrow> SecretManagerService" where
  "registerBackend s backend = s\<lparr>backends := Map_set (backends s) (backend_name backend) backend\<rparr>"

text \<open>
  Startup validation. \<open>clock i\<close> is the pair of clock readings of the \<open>i\<close>-th call of
  \<open>get\<close>. \<open>validate_loop\<close> is the \<open>for\<close> loop, with the array \<open>errors\<close> as an
  accumulator.
\<close>

fun validate_loop ::
  "SecretManagerService \<Rightarrow> (nat \<Rightarrow> int \<times> int) \<Rightarrow> nat \<Rightarrow> SecretRequirement list \<Rightarrow> error list
     \<Rightarrow> error list \<times> SecretManagerService" where
  "validate_loop s clock i [] errors = (errors, s)"
| "validate_loop s clock i (secret # rest) errors =
     (case service_get s (req_name secret) (req_version secret) (req_backend secret)
             (fst (clock i)) (snd (clock i)) of
        (Inr v, s') \<Rightarrow> validate_loop s' clock (Suc i) rest errors
      | (Inl e, s') \<Rightarrow> validate_loop s' clock (Suc i) rest (errors @ [e]))"

definition validation_message :: "error list \<Rightarrow> string" where
  "validation_message errors =
     (let errorMessages = join newline (map (\<lambda>e. ''  - '' @ message e) errors)
      in ''Failed to validate '' @ string_of_nat (length errors) @ '' secret(s):'' @ newline
           @ errorMessages)"

definition validateAllSecrets ::
  "SecretManagerService \<Rightarrow> SecretRegistry \<Rightarrow> (nat \<Rightarrow> int \<times> int)
     \<Rightarrow> (error + unit) \<times> SecretManagerService" where
  "validateAllSecrets s registry clock =
     (let secrets = getAll registry in
      if length secrets = 0 then (Inr (), s)
      else (case validate_loop s clock 0 secrets [] of
              (errors, s') \<Rightarrow>
                if length errors > 0 then (Inl (Error (validation_message errors)), s')
                else (Inr (), s')))"

definition onModuleInit ::
  "SecretManagerService \<Rightarrow> SecretRegistry \<Rightarrow> (nat \<Rightarrow> int \<times> int)
     \<Rightarrow> (error + unit) \<times> SecretManagerService" where
  "onModuleInit s registry clock =
     (if validateOnStartup (options s) \<noteq> Some False then validateAllSecrets s registry clock
      else (Inr (), s))"

text \<open>
  What the specification asks of startup validation, in its words: attempt \<open>get\<close> for
  every requirement in turn, whatever the earlier attempts gave. \<open>attempt_all\<close>
  returns the outcome of each attempt, in order, and the service after the last one;
  \<open>failures\<close> are the errors among the outcomes.
\<close>

fun attempt_all ::
  "SecretManagerService \<Rightarrow> (nat \<Rightarrow> int \<times> int) \<Rightarrow> nat \<Rightarrow> SecretRequirement list
     \<Rightarrow> (error + string) list \<times> SecretManagerService" where
  "attempt_all s clock i [] = ([], s)"
| "attempt_all s clock i (secret # rest) =
     (let attempt = service_get s (req_name secret) (req_version secret) (req_backend secret)
                      (fst (clock i)) (snd (clock i));
          later = attempt_all (snd attempt) clock (Suc i) rest
      in (fst attempt # fst later, snd later))"

fun failures :: "(error + 'a) list \<Rightarrow> error list" where
  "failures [] = []"
| "failures (Inl e # rs) = e # failures rs"
| "failures (Inr v # rs) = failures rs"

section \<open>Scenarios\<close>

text \<open>
  The configurations the examples below run on, after the test suites of the
  package: a service over the in-memory backend with two preloaded secrets, the same
  with a TTL of one second and with caching disabled, and a service that validates a
  registry at startup. \<open>no_gcp\<close> is a cloud backend whose client finds nothing; no
  scenario configures a project, so it is never consulted.
\<close>

definition no_gcp :: "string \<Rightarrow> SecretBackend" where
  "no_gcp pid =
     Gcp_backend \<lparr>projectId = pid, accessSecretVersion = (\<lambda>path. Inr None),
                  utf8_decode = (\<lambda>bs. [])\<rparr>"

definition test_options :: SecretManagerModuleOptions where
  "test_options =
     \<lparr>defaultBackend = ''memory'', cacheEnabled = Some True, cacheTTL = None,
      validateOnStartup = Some False, gcpProjectId = None,
      inMemorySecrets = Some [(''api-key'', ''test-api-key-value''),
                              (''db-password'', ''test-db-password'')],
      debug = None\<rparr>"

definition test_service :: SecretManagerService where
  "test_service = SecretManagerService_new test_options no_gcp"

definition ttl_service :: SecretManagerService where
  "ttl_service = SecretManagerService_new (test_options\<lparr>cacheTTL := Some 1000\<rparr>) no_gcp"

definition uncached_service :: SecretManagerService where
  "uncached_service =
     SecretManagerService_new (test_options\<lparr>cacheEnabled := Some False\<rparr>) no_gcp"

text \<open>
  The in-memory backend as the constructor preloads it, after
  \<open>set('api-key', 'modified-value')\<close>, and after \<open>delete('api-key')\<close>. Registering
  one of the latter two under the name \<open>memory\<close> stands for that call on the backend
  the service holds.
\<close>

definition initial_backend :: SecretBackend where
  "initial_backend = InMemory_backend (InMemory_new (inMemorySecrets test_options))"

definition modified_backend :: SecretBackend where
  "modified_backend =
     InMemory_backend
       (InMemory_set (InMemory_new (inMemorySecrets test_options)) ''api-key''
          ''modified-value'' None)"

definition emptied_backend :: SecretBackend where
  "emptied_backend =
     InMemory_backend
       (snd (InMemory_delete (InMemory_new (inMemorySecrets test_options)) ''api-key'' None))"

definition after_first_get :: "SecretManagerService \<Rightarrow> SecretManagerService" where
  "after_first_get s = snd (service_get s ''api-key'' None None 0 0)"

definition validating_service :: SecretManagerService where
  "validating_service =
     SecretManagerService_new
       \<lparr>defaultBackend = ''memory'', cacheEnabled = None, cacheTTL = None,
        validateOnStartup = Some True, gcpProjectId = None,
        inMemorySecrets = Some [(''api-key'', ''secret'')], debug = None\<rparr> no_gcp"

definition failing_registry :: SecretRegistry where
  "failing_registry =
     snd (register (snd (register (snd (register [] ''missing-secret'' None)) ''api-key'' None))
            ''other'' (Some \<lparr>opt_version = Some ''2'', opt_backend = Some ''vault''\<rparr>))"

text \<open>
  A backend written against the interface from outside the package: \<open>get\<close> answers
  every request, \<open>getLatest\<close> finds nothing.
\<close>

definition custom_backend :: SecretBackend where
  "custom_backend =
     \<lparr>backend_name = ''custom'',
      backend_get = (\<lambda>name version. Inr ''custom-secret''),
      backend_getLatest = (\<lambda>name. Inl (SecretNotFoundError name ''custom'' None))\<rparr>"

section \<open>Facts about Map and the cache\<close>

declare string_of_nat.simps [simp del]

lemmas eval_defs = SecretManagerService_new_def initializeBackends_def InMemory_new_def
  InMemory_set_def InMemory_get_def InMemory_backend_def InMemory_delete_def
  Map_get_def Map_set_def Map_has_def Map_delete_def Map_keys_def Map_size_def Map_clear_def
  Map_values_def nullish_def truthy_def Let_def SecretCache_new_def SecretCache_get_def
  SecretCache_set_def SecretCache_clear_def SecretCache_size_def getCacheKey_def getBackend_def
  getInternal_def getInternal_fetch_def service_get_def clearCache_def registerBackend_def
  register_def getSecretToken_def SECRET_TOKEN_PREFIX_def expired_def

lemmas scenario_defs = no_gcp_def test_options_def test_service_def ttl_service_def
  uncached_service_def initial_backend_def modified_backend_def emptied_backend_def
  after_first_get_def validating_service_def

lemma Map_get_set: "Map_get (Map_set m k v) k' = (if k' = k then Some v else Map_get m k')"
  by (simp add: Map_get_def Map_set_def update_conv')

lemma Map_get_delete:
  "Map_get (snd (Map_delete m k)) k' = (if k' = k then None else Map_get m k')"
  by (simp add: Map_get_def Map_delete_def delete_conv')

lemma Map_get_Nil: "Map_get [] k = None"
  by (simp add: Map_get_def)

lemma Map_set_set: "Map_set (Map_set m k v) k w = Map_set m k w"
  by (simp add: Map_set_def update_last)

lemma Map_set_not_empty: "Map_set m k v \<noteq> []"
  by (cases m) (auto simp: Map_set_def)

lemma Map_wf_set: "Map_wf m \<Longrightarrow> Map_wf (Map_set m k v)"
  by (simp add: Map_wf_def Map_set_def distinct_update)

lemma Map_wf_delete: "Map_wf m \<Longrightarrow> Map_wf (snd (Map_delete m k))"
  by (simp add: Map_wf_def Map_delete_def distinct_delete)

lemma list_all_Map_set:
  "list_all P m \<Longrightarrow> P (k, v) \<Longrightarrow> list_all P (Map_set m k v)"
  unfolding Map_set_def by (induction m) auto

lemma list_all_Map_delete: "list_all P m \<Longrightarrow> list_all P (snd (Map_delete m k))"
  unfolding Map_delete_def by (induction m) (auto simp: AList.delete_eq)

lemma list_all_Map_delete':
  "list_all P m \<Longrightarrow> Map_delete m k = (r, m') \<Longrightarrow> list_all P m'"
  using list_all_Map_delete [of P m k] by simp

lemma getCacheKey_latest:
  "getCacheKey backend name None = getCacheKey backend name (Some ''latest'')"
  by (simp add: getCacheKey_def nullish_def)

lemma SecretCache_get_set_full:
  "SecretCache_get (SecretCache_set c backend name v version t0) backend name version t1 =
     (if expired c t0 t1
      then (None, (SecretCache_set c backend name v version t0)
              \<lparr>cache := snd (Map_delete (cache (SecretCache_set c backend name v version t0))
                                (getCacheKey backend name version))\<rparr>)
      else (Some v, SecretCache_set c backend name v version t0))"
  by (simp add: SecretCache_get_def SecretCache_set_def Map_get_set expired_def Let_def
           split: option.splits)

lemma SecretCache_get_after_set:
  "fst (SecretCache_get (SecretCache_set c backend name v version t0) backend name version t1) =
     (if expired c t0 t1 then None else Some v)"
  by (simp add: SecretCache_get_set_full)

lemma SecretCache_set_entry:
  "Map_get (cache (SecretCache_set c backend name v version t0))
     (getCacheKey backend name version) = Some \<lparr>entry_value = v, cachedAt = t0\<rparr> \<and>
   ttlMs (SecretCache_set c backend name v version t0) = ttlMs c"
  by (simp add: SecretCache_set_def Map_get_set Let_def)

lemma SecretCache_get_cases:
  assumes "SecretCache_get c backend name version now = (r, c')"
  shows "(\<exists>entry. r = Some (entry_value entry) \<and> c' = c \<and>
            Map_get (cache c) (getCacheKey backend name version) = Some entry \<and>
            \<not> expired c (cachedAt entry) now) \<or>
         (r = None \<and> c' = c \<and> Map_get (cache c) (getCacheKey backend name version) = None) \<or>
         (\<exists>entry. r = None \<and>
            c' = c\<lparr>cache := snd (Map_delete (cache c) (getCacheKey backend name version))\<rparr> \<and>
            Map_get (cache c) (getCacheKey backend name version) = Some entry \<and>
            expired c (cachedAt entry) now)"
  using assms
  by (auto simp: SecretCache_get_def Let_def expired_def split: option.splits if_splits)

lemma SecretCache_get_None_absent:
  assumes "SecretCache_get c backend name version now = (None, c')"
  shows "Map_get (cache c') (getCacheKey backend name version) = None \<and> ttlMs c' = ttlMs c"
  using SecretCache_get_cases [OF assms] by (auto simp: Map_get_delete)

lemma SecretCache_get_absent:
  "Map_get (cache c) (getCacheKey backend name version) = None \<Longrightarrow>
   SecretCache_get c backend name version now = (None, c)"
  by (simp add: SecretCache_get_def)

section \<open>The cache: key normalisation and expiry\<close>

text \<open>
  Claim C3, as amended. For every cache, backend, name and secret, \<open>set\<close> followed by
  \<open>get\<close> returns the secret whenever the entry has not expired at the time of the
  \<open>get\<close> (no TTL, or the time between the two calls does not exceed the TTL), and
  absent otherwise. The result, and the cache left behind, is the same whether the
  version is omitted or given as \<open>latest\<close> in either call: both give the key
  \<open>backend:name:latest\<close>.
\<close>

theorem cache_roundtrip_latest:
  assumes "ver = None \<or> ver = Some ''latest''" and "ver' = None \<or> ver' = Some ''latest''"
  shows "getCacheKey backend name ver = backend @ '':'' @ name @ '':latest'' \<and>
         getCacheKey backend name ver' = getCacheKey backend name ver \<and>
         SecretCache_get (SecretCache_set c backend name v ver t0) backend name ver' t1 =
           SecretCache_get (SecretCache_set c backend name v None t0) backend name None t1 \<and>
         fst (SecretCache_get (SecretCache_set c backend name v ver t0) backend name ver' t1) =
           (if expired c t0 t1 then None else Some v)"
proof -
  have k: "getCacheKey backend name ver = getCacheKey backend name None"
       "getCacheKey backend name ver' = getCacheKey backend name None"
    using assms getCacheKey_latest by auto
  have s: "SecretCache_set c backend name v ver t0 = SecretCache_set c backend name v None t0"
    by (simp add: SecretCache_set_def k)
  have g: "\<And>d. SecretCache_get d backend name ver' t1 = SecretCache_get d backend name None t1"
    by (simp add: SecretCache_get_def k)
  show ?thesis
    using k s g SecretCache_get_after_set [of c backend name v None t0 t1]
    by (simp add: getCacheKey_def nullish_def)
qed

text \<open>
  An instance of the theorem above: in a cache with a TTL of one second,
  a secret stored without a version is read back as \<open>latest\<close> half a second later.
\<close>

theorem cache_roundtrip_latest_witness:
  "(None = None \<or> None = Some ''latest'') \<and>
   (Some ''latest'' = None \<or> Some ''latest'' = Some ''latest'') \<and>
   fst (SecretCache_get
          (SecretCache_set (SecretCache_new (Some 1000)) ''gcp'' ''api-key'' ''secret'' None 0)
          ''gcp'' ''api-key'' (Some ''latest'') 500) = Some ''secret''"
proof -
  have h1: "(None :: string option) = None \<or> (None :: string option) = Some ''latest''"
    by simp
  have h2: "Some ''latest'' = None \<or> Some ''latest'' = Some ''latest''"
    by simp
  note t = cache_roundtrip_latest [OF h1 h2, of "''gcp''" "''api-key''"
             "SecretCache_new (Some 1000)" "''secret''" 0 500]
  have "fst (SecretCache_get
          (SecretCache_set (SecretCache_new (Some 1000)) ''gcp'' ''api-key'' ''secret'' None 0)
          ''gcp'' ''api-key'' (Some ''latest'') 500) =
        (if expired (SecretCache_new (Some 1000)) 0 500 then None else Some ''secret'')"
    using t by blast
  then show ?thesis by (simp add: expired_def SecretCache_new_def)
qed

text \<open>
  Claim C3 as stated fails once a TTL has run out between the two calls: with a TTL
  of 1000 ms, a \<open>get\<close> 1001 ms after the \<open>set\<close> returns absent.
\<close>

theorem cache_roundtrip_expired_counterexample:
  "fst (SecretCache_get
          (SecretCache_set (SecretCache_new (Some 1000)) ''gcp'' ''api-key'' ''secret'' None 0)
          ''gcp'' ''api-key'' None 1001) \<noteq> Some ''secret''"
  by (simp add: SecretCache_get_def SecretCache_set_def SecretCache_new_def getCacheKey_def
        nullish_def Map_get_def Map_set_def Map_delete_def Map_has_def)

text \<open>
  Claim C4. For an entry \<open>e\<close> stored in a cache with a TTL, \<open>get\<close> returns the stored
  secret when the time elapsed since \<open>cachedAt e\<close> is less than the TTL (and also when
  it equals the TTL), and returns absent when it exceeds the TTL; in a cache without
  a TTL, \<open>get\<close> returns the secret whatever the time. \<open>cachedAt\<close> is the clock
  reading of the \<open>set\<close> that stored the entry.
\<close>

theorem cache_ttl_expiry:
  assumes "Map_get (cache c) (getCacheKey backend name version) = Some e"
  shows "(\<forall>ttl. ttlMs c = Some ttl \<and> now - cachedAt e < ttl \<longrightarrow>
            SecretCache_get c backend name version now = (Some (entry_value e), c)) \<and>
         (\<forall>ttl. ttlMs c = Some ttl \<and> now - cachedAt e = ttl \<longrightarrow>
            SecretCache_get c backend name version now = (Some (entry_value e), c)) \<and>
         (\<forall>ttl. ttlMs c = Some ttl \<and> now - cachedAt e > ttl \<longrightarrow>
            fst (SecretCache_get c backend name version now) = None) \<and>
         (ttlMs c = None \<longrightarrow>
            SecretCache_get c backend name version now = (Some (entry_value e), c)) \<and>
         Map_get (cache (SecretCache_set c backend name v version t0))
           (getCacheKey backend name version) = Some \<lparr>entry_value = v, cachedAt = t0\<rparr>"
  using assms by (auto simp: SecretCache_get_def Let_def SecretCache_set_entry)

text \<open>
  Instances of the theorem above: an entry stored at time 0 under a TTL of 1000 ms
  is returned at 500 ms and absent at 1001 ms; without a TTL it is returned after
  1000000 ms.
\<close>

theorem cache_ttl_expiry_witness:
  "Map_get (cache (SecretCache_set (SecretCache_new (Some 1000)) ''gcp'' ''api-key'' ''secret''
                     None 0))
     (getCacheKey ''gcp'' ''api-key'' None) = Some \<lparr>entry_value = ''secret'', cachedAt = 0\<rparr> \<and>
   fst (SecretCache_get
          (SecretCache_set (SecretCache_new (Some 1000)) ''gcp'' ''api-key'' ''secret'' None 0)
          ''gcp'' ''api-key'' None 500) = Some ''secret'' \<and>
   fst (SecretCache_get
          (SecretCache_set (SecretCache_new (Some 1000)) ''gcp'' ''api-key'' ''secret'' None 0)
          ''gcp'' ''api-key'' None 1001) = None \<and>
   fst (SecretCache_get
          (SecretCache_set (SecretCache_new None) ''gcp'' ''api-key'' ''secret'' None 0)
          ''gcp'' ''api-key'' None 1000000) = Some ''secret''"
proof -
  let ?c = "SecretCache_set (SecretCache_new (Some 1000)) ''gcp'' ''api-key'' ''secret'' None 0"
  let ?d = "SecretCache_set (SecretCache_new None) ''gcp'' ''api-key'' ''secret'' None 0"
  let ?e = "\<lparr>entry_value = ''secret'', cachedAt = 0\<rparr>"
  have hc: "Map_get (cache ?c) (getCacheKey ''gcp'' ''api-key'' None) = Some ?e"
    by (simp add: SecretCache_set_entry)
  have hd: "Map_get (cache ?d) (getCacheKey ''gcp'' ''api-key'' None) = Some ?e"
    by (simp add: SecretCache_set_entry)
  have tc: "ttlMs ?c = Some 1000" and td: "ttlMs ?d = None"
    by (simp_all add: SecretCache_set_entry SecretCache_new_def)
  have "SecretCache_get ?c ''gcp'' ''api-key'' None 500 = (Some (entry_value ?e), ?c)"
    using cache_ttl_expiry [OF hc, of 500] tc by simp
  moreover have "fst (SecretCache_get ?c ''gcp'' ''api-key'' None 1001) = None"
    using cache_ttl_expiry [OF hc, of 1001] tc by simp
  moreover have "SecretCache_get ?d ''gcp'' ''api-key'' None 1000000 = (Some (entry_value ?e), ?d)"
    using cache_ttl_expiry [OF hd, of 1000000] td by simp
  ultimately show ?thesis using hc by simp
qed

section \<open>The in-memory backend\<close>

lemma InMemory_set_secrets:
  "secrets (InMemory_set b name v version) =
     Map_set (secrets b) name
       (Map_set (case Map_get (secrets b) name of None \<Rightarrow> [] | Some vs \<Rightarrow> vs)
          (nullish version ''latest'') v)"
proof (cases "Map_get (secrets b) name")
  case None
  then have "\<not> Map_has (secrets b) name" by (simp add: Map_has_def Map_get_def)
  then show ?thesis using None
    by (simp add: InMemory_set_def Let_def Map_get_set Map_set_set)
next
  case (Some vs)
  then have "Map_has (secrets b) name" by (simp add: Map_has_def Map_get_def)
  then show ?thesis using Some
    by (simp add: InMemory_set_def Let_def)
qed

lemma InMemory_set_mem_name: "mem_name (InMemory_set b name v version) = mem_name b"
  by (simp add: InMemory_set_def Let_def)

lemma no_empty_set: "no_empty_versions b \<Longrightarrow> no_empty_versions (InMemory_set b name v version)"
  by (simp add: no_empty_versions_def InMemory_set_secrets list_all_Map_set Map_set_not_empty)

lemma no_empty_delete:
  "no_empty_versions b \<Longrightarrow> no_empty_versions (snd (InMemory_delete b name version))"
  by (auto simp: no_empty_versions_def InMemory_delete_def list_all_Map_delete list_all_Map_set
        Map_size_def split: option.splits prod.splits elim: list_all_Map_delete')

lemma no_empty_clear: "no_empty_versions (InMemory_clear b)"
  by (simp add: no_empty_versions_def InMemory_clear_def Map_clear_def)

lemma no_empty_foldl_set:
  "no_empty_versions b \<Longrightarrow>
   no_empty_versions (foldl (\<lambda>b (name, v). InMemory_set b name v None) b entries)"
  by (induction entries arbitrary: b) (auto simp: no_empty_set)

lemma no_empty_new: "no_empty_versions (InMemory_new initialSecrets)"
proof (cases initialSecrets)
  case None
  then show ?thesis by (simp add: InMemory_new_def no_empty_versions_def)
next
  case (Some entries)
  have "no_empty_versions \<lparr>mem_name = ''memory'', secrets = []\<rparr>"
    by (simp add: no_empty_versions_def)
  then show ?thesis using Some by (simp add: InMemory_new_def no_empty_foldl_set)
qed

lemma no_empty_apply: "no_empty_versions b \<Longrightarrow> no_empty_versions (apply_store_op b x)"
  by (cases x) (simp_all add: no_empty_set no_empty_delete no_empty_clear)

lemma no_empty_foldl_ops:
  "no_empty_versions b \<Longrightarrow> no_empty_versions (foldl apply_store_op b ops)"
  by (induction ops arbitrary: b) (simp_all add: no_empty_apply)

lemma delete_last_version:
  assumes "Map_get (secrets b) name = Some [(version, v)]"
  shows "InMemory_delete b name (Some version) =
           (True, b\<lparr>secrets := snd (Map_delete (secrets b) name)\<rparr>)"
  using assms
  by (simp add: InMemory_delete_def Map_delete_def Map_has_def Map_size_def)

text \<open>
  Claim C5. \<open>get(name, version)\<close> of the in-memory backend fails exactly when the name
  is absent from the store or the requested version (\<open>latest\<close> when omitted) is absent
  under that name; a failure is \<open>SecretNotFoundError\<close>; otherwise the stored secret is
  returned. A secret stored only under version \<open>1\<close> is returned for version \<open>1\<close> and
  is not found when the version is omitted or \<open>latest\<close>.
\<close>

theorem InMemory_get_NotFound_iff:
  "((\<exists>e. InMemory_get b name version = Inl e) \<longleftrightarrow>
      (Map_get (secrets b) name = None \<or>
       (\<exists>versions. Map_get (secrets b) name = Some versions \<and>
                   Map_get versions (nullish version ''latest'') = None))) \<and>
   (\<forall>e. InMemory_get b name version = Inl e \<longrightarrow>
      e = SecretNotFoundError name (mem_name b) version) \<and>
   (\<forall>versions v. Map_get (secrets b) name = Some versions \<and>
                 Map_get versions (nullish version ''latest'') = Some v \<longrightarrow>
      InMemory_get b name version = Inr v) \<and>
   (Map_get (secrets b) name = None \<longrightarrow>
      InMemory_get (InMemory_set b name v1 (Some ''1'')) name (Some ''1'') = Inr v1 \<and>
      InMemory_get (InMemory_set b name v1 (Some ''1'')) name None =
        Inl (SecretNotFoundError name (mem_name b) None) \<and>
      InMemory_get (InMemory_set b name v1 (Some ''1'')) name (Some ''latest'') =
        Inl (SecretNotFoundError name (mem_name b) (Some ''latest'')))"
  by (auto simp: InMemory_get_def Let_def InMemory_set_mem_name InMemory_set_secrets Map_get_set
        Map_get_Nil nullish_def split: option.splits)

text \<open>
  An instance of the theorem above, on the empty backend: after
  \<open>set('api-key', 'v1', '1')\<close> the secret is found under version \<open>1\<close> and not under
  \<open>latest\<close>.
\<close>

theorem InMemory_get_NotFound_iff_witness:
  "Map_get (secrets (InMemory_new None)) ''api-key'' = None \<and>
   InMemory_get (InMemory_set (InMemory_new None) ''api-key'' ''v1'' (Some ''1'')) ''api-key''
     (Some ''1'') = Inr ''v1'' \<and>
   InMemory_get (InMemory_set (InMemory_new None) ''api-key'' ''v1'' (Some ''1'')) ''api-key''
     None = Inl (SecretNotFoundError ''api-key'' ''memory'' None) \<and>
   InMemory_get (InMemory_set (InMemory_new None) ''api-key'' ''v1'' (Some ''1'')) ''api-key''
     (Some ''latest'') = Inl (SecretNotFoundError ''api-key'' ''memory'' (Some ''latest''))"
proof -
  have h: "Map_get (secrets (InMemory_new None)) ''api-key'' = None"
    by (simp add: InMemory_new_def Map_get_Nil)
  have n: "mem_name (InMemory_new None) = ''memory''"
    by (simp add: InMemory_new_def)
  show ?thesis
    using h n InMemory_get_NotFound_iff [of "InMemory_new None" "''api-key''" None "''v1''"]
    by simp
qed

text \<open>
  Claim C9. After the constructor's preloading and any sequence of \<open>set\<close>, \<open>delete\<close>
  and \<open>clear\<close>, every name present in the store has a non-empty table of versions;
  deleting the only version of a name removes the name.
\<close>

theorem store_no_empty_versions:
  "no_empty_versions (run_store_ops initialSecrets ops) \<and>
   (\<forall>b name version v. Map_get (secrets b) name = Some [(version, v)] \<longrightarrow>
      Map_get (secrets (snd (InMemory_delete b name (Some version)))) name = None)"
  by (simp add: run_store_ops_def no_empty_foldl_ops no_empty_new delete_last_version
        Map_get_delete)

text \<open>
  An instance of the theorem above: a run that deletes the only version of
  one name and one of the two versions of another leaves a single name, with one
  version.
\<close>

theorem store_no_empty_versions_witness:
  "no_empty_versions (run_store_ops (Some [(''api-key'', ''k'')])
      [OpSet ''db'' ''v1'' (Some ''1''), OpDelete ''db'' (Some ''1''),
       OpSet ''api-key'' ''v2'' (Some ''2''), OpDelete ''api-key'' (Some ''latest'')]) \<and>
   secrets (run_store_ops (Some [(''api-key'', ''k'')])
      [OpSet ''db'' ''v1'' (Some ''1''), OpDelete ''db'' (Some ''1''),
       OpSet ''api-key'' ''v2'' (Some ''2''), OpDelete ''api-key'' (Some ''latest'')])
     = [(''api-key'', [(''2'', ''v2'')])]"
proof -
  have "secrets (run_store_ops (Some [(''api-key'', ''k'')])
      [OpSet ''db'' ''v1'' (Some ''1''), OpDelete ''db'' (Some ''1''),
       OpSet ''api-key'' ''v2'' (Some ''2''), OpDelete ''api-key'' (Some ''latest'')])
     = [(''api-key'', [(''2'', ''v2'')])]"
    by (simp add: run_store_ops_def InMemory_new_def InMemory_set_def InMemory_delete_def
          Map_has_def Map_get_def Map_set_def Map_delete_def Map_size_def nullish_def Let_def)
  then show ?thesis
    using store_no_empty_versions [of "Some [(''api-key'', ''k'')]"
      "[OpSet ''db'' ''v1'' (Some ''1''), OpDelete ''db'' (Some ''1''),
       OpSet ''api-key'' ''v2'' (Some ''2''), OpDelete ''api-key'' (Some ''latest'')]"]
    by simp
qed

section \<open>The registry\<close>

lemma token_of_tuple:
  "getSecretToken name options_arg =
     (case token_tuple name options_arg of
        (backend, n, version) \<Rightarrow> ''SECRET_'' @ backend @ ''_'' @ n @ ''_'' @ version)"
  by (simp add: getSecretToken_def token_tuple_def SECRET_TOKEN_PREFIX_def Let_def)

text \<open>Registering the same name and options again changes nothing.\<close>

lemma register_idempotent:
  "snd (register (snd (register r name options_arg)) name options_arg) =
     snd (register r name options_arg)"
  by (simp add: register_def Let_def Map_set_set)

text \<open>
  Two registrations with the same tuple leave one entry, the requirement of the
  second.
\<close>

lemma same_tuple_one_entry:
  assumes "token_tuple name2 options2 = token_tuple name1 options1"
  shows "registry_size (snd (register (snd (register [] name1 options1)) name2 options2)) = 1 \<and>
         getAll (snd (register (snd (register [] name1 options1)) name2 options2)) =
           [fst (register [] name2 options2)]"
proof -
  have "getSecretToken name2 options2 = getSecretToken name1 options1"
    using assms by (simp add: token_of_tuple)
  then show ?thesis
    by (simp add: register_def registry_size_def getAll_def Map_values_def Map_size_def
          Map_set_def Let_def)
qed

lemma split_at_separator:
  "x \<notin> set a \<Longrightarrow> x \<notin> set b \<Longrightarrow> a @ x # r = b @ x # r' \<Longrightarrow> a = b \<and> r = r'"
proof (induction a arbitrary: b)
  case Nil
  then show ?case by (cases b) auto
next
  case (Cons y a)
  then show ?case by (cases b) auto
qed

text \<open>
  Tokens tell tuples apart as long as neither the backend names nor the secret names
  contain the separator \<open>_\<close>.
\<close>

lemma token_unique_without_separator:
  assumes "CHR ''_'' \<notin> set (fst (token_tuple name1 options1))" "CHR ''_'' \<notin> set name1"
      and "CHR ''_'' \<notin> set (fst (token_tuple name2 options2))" "CHR ''_'' \<notin> set name2"
      and "getSecretToken name1 options1 = getSecretToken name2 options2"
  shows "token_tuple name1 options1 = token_tuple name2 options2"
proof -
  obtain b1 v1 where t1: "token_tuple name1 options1 = (b1, name1, v1)"
    by (simp add: token_tuple_def)
  obtain b2 v2 where t2: "token_tuple name2 options2 = (b2, name2, v2)"
    by (simp add: token_tuple_def)
  from assms(5)
  have "b1 @ CHR ''_'' # (name1 @ CHR ''_'' # v1) = b2 @ CHR ''_'' # (name2 @ CHR ''_'' # v2)"
    by (simp add: token_of_tuple t1 t2)
  moreover have "CHR ''_'' \<notin> set b1" "CHR ''_'' \<notin> set b2"
    using assms(1,3) t1 t2 by simp_all
  ultimately have b: "b1 = b2" and rest: "name1 @ CHR ''_'' # v1 = name2 @ CHR ''_'' # v2"
    using split_at_separator [of "CHR ''_''" b1 b2] by blast+
  have "name1 = name2 \<and> v1 = v2"
    using split_at_separator [OF assms(2) assms(4) rest] .
  with b t1 t2 show ?thesis by auto
qed

text \<open>
  Claim C6 fails on the code where a name contains the separator. The requirements
  \<open>register('prod_key', {backend: 'vault'})\<close> and
  \<open>register('key', {backend: 'vault_prod'})\<close> have different tuples and the same
  token \<open>SECRET_vault_prod_key_latest\<close>; the second registration overwrites the
  first and the registry holds one entry.
\<close>

theorem getSecretToken_collision:
  "token_tuple ''prod_key'' (Some \<lparr>opt_version = None, opt_backend = Some ''vault''\<rparr>) \<noteq>
   token_tuple ''key'' (Some \<lparr>opt_version = None, opt_backend = Some ''vault_prod''\<rparr>) \<and>
   getSecretToken ''prod_key'' (Some \<lparr>opt_version = None, opt_backend = Some ''vault''\<rparr>) =
     ''SECRET_vault_prod_key_latest'' \<and>
   getSecretToken ''key'' (Some \<lparr>opt_version = None, opt_backend = Some ''vault_prod''\<rparr>) =
     ''SECRET_vault_prod_key_latest'' \<and>
   getAll
     (snd (register
        (snd (register [] ''prod_key''
                (Some \<lparr>opt_version = None, opt_backend = Some ''vault''\<rparr>)))
        ''key'' (Some \<lparr>opt_version = None, opt_backend = Some ''vault_prod''\<rparr>))) =
     [\<lparr>req_name = ''key'', req_version = None, req_backend = Some ''vault_prod'',
       req_token = ''SECRET_vault_prod_key_latest''\<rparr>]"
  by (simp add: token_tuple_def getSecretToken_def register_def getAll_def Map_values_def
        Map_set_def nullish_def SECRET_TOKEN_PREFIX_def Let_def)

section \<open>The service: resolving a secret\<close>

lemma service_get_resolved:
  "getBackend s backendName = Inr b \<Longrightarrow>
   service_get s name version backendName now now' =
     getInternal s name (nullish version ''latest'') b now now'"
  by (simp add: service_get_def)

lemma service_get_unresolved:
  "getBackend s backendName = Inl e \<Longrightarrow>
   service_get s name version backendName now now' = (Inl e, s)"
  by (simp add: service_get_def)

lemma getInternal_disabled:
  "cacheEnabled (options s) = Some False \<Longrightarrow>
   getInternal s name version b now now' = (backend_get b name (Some version), s)"
  by (cases "backend_get b name (Some version)")
     (simp_all add: getInternal_def getInternal_fetch_def)

lemma getInternal_hit:
  "cacheEnabled (options s) \<noteq> Some False \<Longrightarrow>
   SecretCache_get (secretCache s) (backend_name b) name (Some version) now = (Some v, c) \<Longrightarrow>
   getInternal s name version b now now' = (Inr v, s\<lparr>secretCache := c\<rparr>)"
  by (simp add: getInternal_def)

lemma getInternal_miss:
  "cacheEnabled (options s) \<noteq> Some False \<Longrightarrow>
   SecretCache_get (secretCache s) (backend_name b) name (Some version) now = (None, c) \<Longrightarrow>
   getInternal s name version b now now' =
     (case backend_get b name (Some version) of
        Inl e \<Rightarrow> (Inl e, s\<lparr>secretCache := c\<rparr>)
      | Inr v \<Rightarrow> (Inr v, s\<lparr>secretCache :=
                              SecretCache_set c (backend_name b) name v (Some version) now'\<rparr>))"
  by (simp add: getInternal_def getInternal_fetch_def split: sum.splits)

lemma getBackend_cong:
  "options s2 = options s \<Longrightarrow> backends s2 = backends s \<Longrightarrow>
   getBackend s2 backendName = getBackend s backendName"
  by (simp add: getBackend_def Let_def split: option.splits)

lemma getInternal_fst_miss:
  assumes "cacheEnabled (options s) \<noteq> Some False \<longrightarrow>
           Map_get (cache (secretCache s)) (getCacheKey (backend_name b) name (Some version)) = None"
  shows "fst (getInternal s name version b now now') = backend_get b name (Some version)"
proof (cases "cacheEnabled (options s) = Some False")
  case True
  then show ?thesis by (simp add: getInternal_disabled)
next
  case False
  with assms have "SecretCache_get (secretCache s) (backend_name b) name (Some version) now
                     = (None, secretCache s)"
    by (simp add: SecretCache_get_absent)
  with False show ?thesis
    by (simp add: getInternal_miss split: sum.splits)
qed

lemma getBackend_secretCache_update:
  "getBackend (s\<lparr>secretCache := c\<rparr>) backendName = getBackend s backendName"
  by (rule getBackend_cong) simp_all

lemma service_get_failure_cases:
  assumes "service_get s name version backendName now now' = (Inl e, s')"
  shows "(getBackend s backendName = Inl e \<and> s' = s) \<or>
         (\<exists>b. getBackend s backendName = Inr b \<and>
            backend_get b name (Some (nullish version ''latest'')) = Inl e \<and>
            ((cacheEnabled (options s) = Some False \<and> s' = s) \<or>
             (\<exists>c'. cacheEnabled (options s) \<noteq> Some False \<and>
                SecretCache_get (secretCache s) (backend_name b) name
                  (Some (nullish version ''latest'')) now = (None, c') \<and>
                s' = s\<lparr>secretCache := c'\<rparr>)))"
proof (cases "getBackend s backendName")
  case (Inl e')
  with assms show ?thesis by (simp add: service_get_unresolved)
next
  case (Inr b)
  let ?ver = "nullish version ''latest''"
  show ?thesis
  proof (cases "cacheEnabled (options s) = Some False")
    case True
    with assms Inr show ?thesis
      by (simp add: service_get_resolved getInternal_disabled)
  next
    case False
    obtain r c' where g: "SecretCache_get (secretCache s) (backend_name b) name (Some ?ver) now = (r, c')"
      by (cases "SecretCache_get (secretCache s) (backend_name b) name (Some ?ver) now")
    show ?thesis
    proof (cases r)
      case None
      with assms Inr False g show ?thesis
        by (cases "backend_get b name (Some ?ver)")
           (simp_all add: service_get_resolved getInternal_miss)
    next
      case (Some v)
      with assms Inr False g show ?thesis
        by (simp add: service_get_resolved getInternal_hit)
    qed
  qed
qed

text \<open>The scenarios, evaluated.\<close>

lemma test_service_backends: "backends test_service = [(''memory'', initial_backend)]"
  by (simp add: scenario_defs eval_defs)

lemma test_service_parts:
  "options test_service = test_options"
  "secretCache test_service = \<lparr>cache = [], ttlMs = None\<rparr>"
  by (simp_all add: test_service_def test_options_def SecretManagerService_new_def
        SecretCache_new_def Let_def)

lemma backend_names:
  "backend_name initial_backend = ''memory''"
  "backend_name modified_backend = ''memory''"
  "backend_name emptied_backend = ''memory''"
  by (simp_all add: scenario_defs eval_defs)

lemma backend_answers:
  "backend_get initial_backend ''api-key'' (Some ''latest'') = Inr ''test-api-key-value''"
  "backend_get modified_backend ''api-key'' (Some ''latest'') = Inr ''modified-value''"
  "backend_get emptied_backend ''api-key'' (Some ''latest'') =
     Inl (SecretNotFoundError ''api-key'' ''memory'' (Some ''latest''))"
  by (simp_all add: scenario_defs eval_defs)

lemma failing_registry_all:
  "getAll failing_registry =
     [\<lparr>req_name = ''missing-secret'', req_version = None, req_backend = None,
       req_token = ''SECRET_default_missing-secret_latest''\<rparr>,
      \<lparr>req_name = ''api-key'', req_version = None, req_backend = None,
       req_token = ''SECRET_default_api-key_latest''\<rparr>,
      \<lparr>req_name = ''other'', req_version = Some ''2'', req_backend = Some ''vault'',
       req_token = ''SECRET_vault_other_2''\<rparr>]"
  by (simp add: failing_registry_def getAll_def eval_defs)

lemma failing_registry_attempts:
  "fst (attempt_all validating_service (\<lambda>i. (0, 0)) 0 (getAll failing_registry)) =
     [Inl (SecretNotFoundError ''missing-secret'' ''memory'' (Some ''latest'')),
      Inr ''secret'',
      Inl (Error (''Unknown secret backend: '' @ quote @ ''vault'' @ quote
                    @ ''. Available backends: memory''))]"
  by (simp add: failing_registry_all scenario_defs eval_defs)

text \<open>
  Claim C7. When no backend is registered under the requested backend name (the
  configured default when the argument is omitted), \<open>get\<close> fails at once, for every
  secret name and version, without touching the service; the error message names the
  requested backend and lists the names of the registered backends.
\<close>

theorem unknown_backend_fails:
  assumes "Map_get (backends s) (nullish backendName (defaultBackend (options s))) = None"
  shows "service_get s name version backendName now now' =
     (Inl (Error (''Unknown secret backend: '' @ quote
                   @ nullish backendName (defaultBackend (options s)) @ quote
                   @ ''. Available backends: '' @ join '', '' (Map_keys (backends s)))), s)"
  using assms by (simp add: service_get_def getBackend_def Let_def)

text \<open>
  An instance of the theorem above: \<open>get('api-key', undefined, 'unknown')\<close> on
  the test service.
\<close>

theorem unknown_backend_fails_witness:
  "Map_get (backends test_service)
     (nullish (Some ''unknown'') (defaultBackend (options test_service))) = None \<and>
   service_get test_service ''api-key'' None (Some ''unknown'') 0 0 =
     (Inl (Error (''Unknown secret backend: '' @ quote @ ''unknown'' @ quote
                   @ ''. Available backends: memory'')), test_service)"
proof -
  have b: "Map_keys (backends test_service) = [''memory'']"
    by (simp add: scenario_defs eval_defs)
  have h: "Map_get (backends test_service)
             (nullish (Some ''unknown'') (defaultBackend (options test_service))) = None"
    by (simp add: scenario_defs eval_defs)
  show ?thesis
    using h unknown_backend_fails [OF h, of "''api-key''" None 0 0]
    by (simp add: b nullish_def)
qed

text \<open>
  Claim C8, as amended. \<open>getLatest(name, backendName)\<close> of the service is
  \<open>get(name, 'latest', backendName)\<close>, whatever backends are registered: same
  result, same service afterwards. For the two backends of the package, the in-memory
  backend and the cloud backend, \<open>getLatest(name)\<close> is \<open>get(name, 'latest')\<close>, also
  through the backend interface.
\<close>

theorem getLatest_is_get_latest:
  "service_getLatest s name backendName now now' =
     service_get s name (Some ''latest'') backendName now now' \<and>
   InMemory_getLatest b name = InMemory_get b name (Some ''latest'') \<and>
   backend_getLatest (InMemory_backend b) name =
     backend_get (InMemory_backend b) name (Some ''latest'') \<and>
   Gcp_getLatest g name = Gcp_get g name (Some ''latest'') \<and>
   backend_getLatest (Gcp_backend g) name = backend_get (Gcp_backend g) name (Some ''latest'')"
  by (simp add: service_getLatest_def InMemory_getLatest_def InMemory_backend_def
        Gcp_getLatest_def Gcp_backend_def)

text \<open>
  Claim C8 as stated fails for a backend from outside the package: the interface
  does not tie \<open>getLatest\<close> to \<open>get\<close>. \<open>registerBackend\<close> accepts the custom
  backend, the service resolves it by its name, and its \<open>getLatest('api-key')\<close>
  fails where its \<open>get('api-key', 'latest')\<close> returns a secret.
\<close>

theorem custom_backend_getLatest_counterexample:
  "getBackend (registerBackend test_service custom_backend) (Some ''custom'') =
     Inr custom_backend \<and>
   backend_get custom_backend ''api-key'' (Some ''latest'') = Inr ''custom-secret'' \<and>
   backend_getLatest custom_backend ''api-key'' =
     Inl (SecretNotFoundError ''api-key'' ''custom'' None) \<and>
   backend_getLatest custom_backend ''api-key'' \<noteq>
     backend_get custom_backend ''api-key'' (Some ''latest'')"
proof -
  have n: "backend_name custom_backend = ''custom''"
    by (simp add: custom_backend_def)
  have "getBackend (registerBackend test_service custom_backend) (Some ''custom'') =
          Inr custom_backend"
    by (simp add: getBackend_def registerBackend_def n test_service_backends Map_get_def
          Map_set_def nullish_def Let_def)
  then show ?thesis
    by (simp add: custom_backend_def)
qed

section \<open>The service: caching\<close>

text \<open>
  Claim C2, as amended. With caching enabled, a \<open>get\<close> that finds no live entry for
  its key returns what the backend returns and stores it under the key with the
  clock reading \<open>now'\<close>. A later \<open>get\<close> for the same key, on a service \<open>s2\<close> with
  that cache whose backend of the same name may answer anything, returns the stored
  secret and leaves the service as it is, provided the entry has not expired (no TTL,
  or at most the TTL has elapsed since \<open>now'\<close>). After \<open>clearCache\<close> the next \<open>get\<close>
  returns what the backend returns then. With caching disabled every \<open>get\<close> returns
  what the backend returns and leaves the service as it is.
\<close>

theorem resolver_cache_memoizes:
  assumes backend: "getBackend s backendName = Inr b"
  shows
   "(cacheEnabled (options s) \<noteq> Some False \<and>
     fst (SecretCache_get (secretCache s) (backend_name b) name
            (Some (nullish version ''latest'')) now) = None \<and>
     backend_get b name (Some (nullish version ''latest'')) = Inr v \<longrightarrow>
       fst (service_get s name version backendName now now') = Inr v \<and>
       Map_get (cache (secretCache (snd (service_get s name version backendName now now'))))
         (getCacheKey (backend_name b) name (Some (nullish version ''latest''))) =
         Some \<lparr>entry_value = v, cachedAt = now'\<rparr> \<and>
       (\<forall>s2 b2 t t'.
          options s2 = options s \<and>
          secretCache s2 = secretCache (snd (service_get s name version backendName now now')) \<and>
          getBackend s2 backendName = Inr b2 \<and> backend_name b2 = backend_name b \<longrightarrow>
            (\<not> expired (secretCache s2) now' t \<longrightarrow>
               service_get s2 name version backendName t t' = (Inr v, s2)) \<and>
            fst (service_get (clearCache s2) name version backendName t t') =
              backend_get b2 name (Some (nullish version ''latest'')))) \<and>
    (cacheEnabled (options s) = Some False \<longrightarrow>
       service_get s name version backendName now now' =
         (backend_get b name (Some (nullish version ''latest'')), s))"
proof -
  let ?ver = "nullish version ''latest''"
  let ?s1 = "snd (service_get s name version backendName now now')"
  have disabled: "cacheEnabled (options s) = Some False \<longrightarrow>
       service_get s name version backendName now now' = (backend_get b name (Some ?ver), s)"
    by (simp add: service_get_resolved [OF backend] getInternal_disabled)
  have enabled: "fst (service_get s name version backendName now now') = Inr v \<and>
       Map_get (cache (secretCache ?s1)) (getCacheKey (backend_name b) name (Some ?ver)) =
         Some \<lparr>entry_value = v, cachedAt = now'\<rparr> \<and>
       (\<forall>s2 b2 t t'.
          options s2 = options s \<and> secretCache s2 = secretCache ?s1 \<and>
          getBackend s2 backendName = Inr b2 \<and> backend_name b2 = backend_name b \<longrightarrow>
            (\<not> expired (secretCache s2) now' t \<longrightarrow>
               service_get s2 name version backendName t t' = (Inr v, s2)) \<and>
            fst (service_get (clearCache s2) name version backendName t t') =
              backend_get b2 name (Some ?ver))"
    if en: "cacheEnabled (options s) \<noteq> Some False"
      and miss: "fst (SecretCache_get (secretCache s) (backend_name b) name (Some ?ver) now) = None"
      and fetch: "backend_get b name (Some ?ver) = Inr v"
  proof -
    obtain c where c: "SecretCache_get (secretCache s) (backend_name b) name (Some ?ver) now = (None, c)"
      using miss by (cases "SecretCache_get (secretCache s) (backend_name b) name (Some ?ver) now") simp
    let ?c1 = "SecretCache_set c (backend_name b) name v (Some ?ver) now'"
    have first: "service_get s name version backendName now now' = (Inr v, s\<lparr>secretCache := ?c1\<rparr>)"
      by (simp add: service_get_resolved [OF backend] getInternal_miss [OF en c] fetch)
    have pop: "Map_get (cache (secretCache ?s1)) (getCacheKey (backend_name b) name (Some ?ver)) =
         Some \<lparr>entry_value = v, cachedAt = now'\<rparr>"
      by (simp add: first SecretCache_set_entry)
    have later: "(\<not> expired (secretCache s2) now' t \<longrightarrow>
               service_get s2 name version backendName t t' = (Inr v, s2)) \<and>
            fst (service_get (clearCache s2) name version backendName t t') =
              backend_get b2 name (Some ?ver)"
      if o2: "options s2 = options s" and c2: "secretCache s2 = secretCache ?s1"
        and g2: "getBackend s2 backendName = Inr b2" and n2: "backend_name b2 = backend_name b"
      for s2 b2 t t'
    proof -
      have sc: "secretCache s2 = ?c1" using c2 first by simp
      have en2: "cacheEnabled (options s2) \<noteq> Some False" using en o2 by simp
      have hit: "service_get s2 name version backendName t t' = (Inr v, s2)"
        if live: "\<not> expired (secretCache s2) now' t"
      proof -
        have "\<not> expired c now' t" using live sc by (simp add: expired_def SecretCache_set_def Let_def)
        then have "SecretCache_get (secretCache s2) (backend_name b2) name (Some ?ver) t = (Some v, secretCache s2)"
          by (simp add: sc n2 SecretCache_get_set_full)
        then show ?thesis
          by (simp add: service_get_resolved [OF g2] getInternal_hit [OF en2])
      qed
      have g3: "getBackend (clearCache s2) backendName = Inr b2"
        using g2 by (simp add: clearCache_def getBackend_secretCache_update)
      have "cacheEnabled (options (clearCache s2)) \<noteq> Some False \<longrightarrow>
            Map_get (cache (secretCache (clearCache s2)))
              (getCacheKey (backend_name b2) name (Some ?ver)) = None"
        by (simp add: clearCache_def SecretCache_clear_def Map_clear_def Map_get_Nil)
      then have "fst (service_get (clearCache s2) name version backendName t t') =
              backend_get b2 name (Some ?ver)"
        by (simp add: service_get_resolved [OF g3] getInternal_fst_miss)
      with hit show ?thesis by blast
    qed
    have f1: "fst (service_get s name version backendName now now') = Inr v"
      by (simp add: first)
    from f1 pop later show ?thesis by blast
  qed
  from enabled disabled show ?thesis by blast
qed


text \<open>
  An instance of the theorem above, on the test service without a TTL: the first
  \<open>get('api-key')\<close> fetches; after the backend's secret is modified, a \<open>get\<close>
  1000000 ms later still returns the first secret; after \<open>clearCache\<close> it returns
  the modified one. With caching disabled, \<open>get\<close> returns the modified secret at
  once.
\<close>

theorem resolver_cache_memoizes_witness:
  "getBackend test_service None = Inr initial_backend \<and>
   fst (service_get test_service ''api-key'' None None 0 0) = Inr ''test-api-key-value'' \<and>
   fst (service_get (registerBackend (after_first_get test_service) modified_backend)
          ''api-key'' None None 1000000 1000000) = Inr ''test-api-key-value'' \<and>
   fst (service_get (clearCache (registerBackend (after_first_get test_service) modified_backend))
          ''api-key'' None None 1000000 1000000) = Inr ''modified-value'' \<and>
   getBackend (registerBackend uncached_service modified_backend) None = Inr modified_backend \<and>
   service_get (registerBackend uncached_service modified_backend) ''api-key'' None None 0 0 =
     (Inr ''modified-value'', registerBackend uncached_service modified_backend)"
proof -
  let ?s = test_service
  let ?s2 = "registerBackend (after_first_get test_service) modified_backend"
  let ?u = "registerBackend uncached_service modified_backend"
  have g: "getBackend ?s None = Inr initial_backend"
    by (simp add: getBackend_def test_service_backends test_service_parts test_options_def
          Map_get_def nullish_def Let_def)
  have en: "cacheEnabled (options ?s) \<noteq> Some False"
    by (simp add: test_service_parts test_options_def)
  have miss: "fst (SecretCache_get (secretCache ?s) (backend_name initial_backend) ''api-key''
                     (Some (nullish None ''latest'')) 0) = None"
    by (simp add: test_service_parts SecretCache_get_def Map_get_def)
  have fetch: "backend_get initial_backend ''api-key'' (Some (nullish None ''latest'')) =
                 Inr ''test-api-key-value''"
    by (simp add: backend_answers nullish_def)
  note t = resolver_cache_memoizes [OF g, of "''api-key''" None 0 "''test-api-key-value''" 0]
  from t en miss fetch
  have first: "fst (service_get ?s ''api-key'' None None 0 0) = Inr ''test-api-key-value''"
    and later: "\<forall>s2 b2 t t'.
          options s2 = options ?s \<and>
          secretCache s2 = secretCache (snd (service_get ?s ''api-key'' None None 0 0)) \<and>
          getBackend s2 None = Inr b2 \<and> backend_name b2 = backend_name initial_backend \<longrightarrow>
            (\<not> expired (secretCache s2) 0 t \<longrightarrow>
               service_get s2 ''api-key'' None None t t' = (Inr ''test-api-key-value'', s2)) \<and>
            fst (service_get (clearCache s2) ''api-key'' None None t t') =
              backend_get b2 ''api-key'' (Some (nullish None ''latest''))"
    by blast+
  have o2: "options ?s2 = options ?s"
    by (simp add: registerBackend_def after_first_get_def service_get_resolved [OF g]
          getInternal_miss [OF en] test_service_parts SecretCache_get_def Map_get_def fetch
          nullish_def backend_answers)
  have c2: "secretCache ?s2 = secretCache (snd (service_get ?s ''api-key'' None None 0 0))"
    by (simp add: registerBackend_def after_first_get_def)
  have b2: "backends ?s2 = [(''memory'', modified_backend)]"
    by (simp add: registerBackend_def after_first_get_def service_get_resolved [OF g]
          getInternal_miss [OF en] test_service_parts SecretCache_get_def Map_get_def 
          nullish_def backend_answers backend_names test_service_backends Map_set_def)
  have g2: "getBackend ?s2 None = Inr modified_backend"
    by (simp add: getBackend_def b2 o2 test_service_parts test_options_def Map_get_def
          nullish_def Let_def)
  have n2: "backend_name modified_backend = backend_name initial_backend"
    by (simp add: backend_names)
  have ttl: "ttlMs (secretCache ?s2) = None"
    by (simp add: c2 service_get_resolved [OF g]
          getInternal_miss [OF en] test_service_parts SecretCache_get_def Map_get_def 
          nullish_def backend_answers backend_names SecretCache_set_def Let_def)
  have live: "\<not> expired (secretCache ?s2) 0 1000000"
    by (simp add: expired_def ttl)
  from later o2 c2 g2 n2 live
  have hit: "service_get ?s2 ''api-key'' None None 1000000 1000000 =
               (Inr ''test-api-key-value'', ?s2)"
    and cleared: "fst (service_get (clearCache ?s2) ''api-key'' None None 1000000 1000000) =
               backend_get modified_backend ''api-key'' (Some (nullish None ''latest''))"
    by blast+
  have gu: "getBackend ?u None = Inr modified_backend"
    by (simp add: scenario_defs eval_defs)
  have du: "cacheEnabled (options ?u) = Some False"
    by (simp add: registerBackend_def uncached_service_def test_options_def
          SecretManagerService_new_def Let_def)
  from resolver_cache_memoizes [OF gu, of "''api-key''" None 0 "''x''" 0] du
  have unc: "service_get ?u ''api-key'' None None 0 0 =
               (backend_get modified_backend ''api-key'' (Some (nullish None ''latest'')), ?u)"
    by blast
  from g first hit cleared gu unc show ?thesis
    by (simp add: nullish_def backend_answers)
qed


text \<open>
  Claim C2 as stated fails once a TTL has run out: on the service with a TTL of
  1000 ms, the first \<open>get('api-key')\<close> at time 0 caches the secret; after the
  backend's secret is modified, a \<open>get\<close> at 1001 ms returns the modified secret, not
  the cached one.
\<close>

theorem resolver_cache_expired_counterexample:
  "fst (service_get ttl_service ''api-key'' None None 0 0) = Inr ''test-api-key-value'' \<and>
   fst (service_get (registerBackend (after_first_get ttl_service) modified_backend)
          ''api-key'' None None 1001 1001) = Inr ''modified-value''"
  by (simp add: scenario_defs eval_defs)

section \<open>The service: failures and the cache\<close>

text \<open>
  Claim C10, as amended. When \<open>get\<close> fails, nothing is stored: options, backends and
  TTL are as before and every entry of the cache afterwards was there before. The
  cache is unchanged when the backend is unknown, when caching is disabled and when
  no TTL is configured; otherwise it is unchanged or has lost the entry under the
  requested key, which the lookup found expired. After the failure the cache has no
  entry under the requested key, and a further \<open>get\<close> for it returns what the backend
  returns.
\<close>

theorem failed_get_stores_nothing:
  assumes fail: "service_get s name version backendName now now' = (Inl e, s')"
  shows
   "options s' = options s \<and> backends s' = backends s \<and>
    ttlMs (secretCache s') = ttlMs (secretCache s) \<and>
    (\<forall>k entry. Map_get (cache (secretCache s')) k = Some entry \<longrightarrow>
                Map_get (cache (secretCache s)) k = Some entry) \<and>
    (ttlMs (secretCache s) = None \<longrightarrow> s' = s) \<and>
    (\<forall>e'. getBackend s backendName = Inl e' \<longrightarrow> e' = e \<and> s' = s) \<and>
    (\<forall>b. getBackend s backendName = Inr b \<longrightarrow>
       backend_get b name (Some (nullish version ''latest'')) = Inl e \<and>
       (secretCache s' = secretCache s \<or>
        (\<exists>entry. Map_get (cache (secretCache s))
                    (getCacheKey (backend_name b) name (Some (nullish version ''latest''))) =
                    Some entry \<and>
                 expired (secretCache s) (cachedAt entry) now \<and>
                 secretCache s' = (secretCache s)
                   \<lparr>cache := snd (Map_delete (cache (secretCache s))
                      (getCacheKey (backend_name b) name (Some (nullish version ''latest''))))\<rparr>)) \<and>
       (cacheEnabled (options s) \<noteq> Some False \<longrightarrow>
          Map_get (cache (secretCache s'))
            (getCacheKey (backend_name b) name (Some (nullish version ''latest''))) = None) \<and>
       (\<forall>t t'. fst (service_get s' name version backendName t t') =
                  backend_get b name (Some (nullish version ''latest''))))"
proof -
  let ?ver = "nullish version ''latest''"
  from service_get_failure_cases [OF fail]
  consider (unknown) "getBackend s backendName = Inl e" "s' = s"
    | (disabled) b where "getBackend s backendName = Inr b"
        "backend_get b name (Some ?ver) = Inl e" "cacheEnabled (options s) = Some False" "s' = s"
    | (enabled) b c' where "getBackend s backendName = Inr b"
        "backend_get b name (Some ?ver) = Inl e" "cacheEnabled (options s) \<noteq> Some False"
        "SecretCache_get (secretCache s) (backend_name b) name (Some ?ver) now = (None, c')"
        "s' = s\<lparr>secretCache := c'\<rparr>"
    by blast
  then show ?thesis
  proof cases
    case unknown
    then show ?thesis by simp
  next
    case disabled
    have "fst (service_get s name version backendName t t') = backend_get b name (Some ?ver)"
      for t t'
      using disabled by (simp add: service_get_resolved getInternal_disabled)
    with disabled show ?thesis by simp
  next
    case enabled
    note cs = SecretCache_get_cases [OF enabled(4)]
    have absent: "Map_get (cache c') (getCacheKey (backend_name b) name (Some ?ver)) = None"
      and ttl: "ttlMs c' = ttlMs (secretCache s)"
      using SecretCache_get_None_absent [OF enabled(4)] by simp_all
    have sub: "\<forall>k entry. Map_get (cache c') k = Some entry \<longrightarrow>
                 Map_get (cache (secretCache s)) k = Some entry"
      using cs by (auto simp: Map_get_delete split: if_splits)
    have nottl: "ttlMs (secretCache s) = None \<longrightarrow> c' = secretCache s"
      using cs by (auto simp: expired_def)
    have shape: "c' = secretCache s \<or>
        (\<exists>entry. Map_get (cache (secretCache s))
                    (getCacheKey (backend_name b) name (Some ?ver)) = Some entry \<and>
                 expired (secretCache s) (cachedAt entry) now \<and>
                 c' = (secretCache s)
                   \<lparr>cache := snd (Map_delete (cache (secretCache s))
                      (getCacheKey (backend_name b) name (Some ?ver)))\<rparr>)"
      using cs by auto
    have g': "getBackend s' backendName = Inr b"
      using enabled by (simp add: getBackend_secretCache_update)
    have again: "fst (service_get s' name version backendName t t') = backend_get b name (Some ?ver)"
      for t t'
    proof -
      have "Map_get (cache (secretCache s')) (getCacheKey (backend_name b) name (Some ?ver)) = None"
        using absent enabled(5) by simp
      then have "fst (getInternal s' name ?ver b t t') = backend_get b name (Some ?ver)"
        by (simp add: getInternal_fst_miss)
      then show ?thesis by (simp add: service_get_resolved [OF g'])
    qed
    have same: "ttlMs (secretCache s) = None \<longrightarrow> s' = s"
      using nottl enabled(5) by simp
    from enabled absent ttl sub same shape again show ?thesis
      by simp
  qed
qed


text \<open>
  An instance of the theorem above, on the service with a TTL of 1000 ms: the secret
  is cached at time 0 and then deleted from the backend; \<open>get\<close> at 1001 ms fails,
  leaves no entry under the key, and the next \<open>get\<close> asks the backend again.
\<close>

theorem failed_get_stores_nothing_witness:
  "fst (service_get (registerBackend (after_first_get ttl_service) emptied_backend)
          ''api-key'' None None 1001 1001) =
     Inl (SecretNotFoundError ''api-key'' ''memory'' (Some ''latest'')) \<and>
   getBackend (registerBackend (after_first_get ttl_service) emptied_backend) None =
     Inr emptied_backend \<and>
   Map_get (cache (secretCache (snd (service_get
              (registerBackend (after_first_get ttl_service) emptied_backend)
              ''api-key'' None None 1001 1001))))
     ''memory:api-key:latest'' = None \<and>
   fst (service_get
          (snd (service_get (registerBackend (after_first_get ttl_service) emptied_backend)
                  ''api-key'' None None 1001 1001))
          ''api-key'' None None 2000 2000) =
     Inl (SecretNotFoundError ''api-key'' ''memory'' (Some ''latest''))"
proof -
  let ?s = "registerBackend (after_first_get ttl_service) emptied_backend"
  let ?e = "SecretNotFoundError ''api-key'' ''memory'' (Some ''latest'')"
  let ?s' = "snd (service_get ?s ''api-key'' None None 1001 1001)"
  have f: "fst (service_get ?s ''api-key'' None None 1001 1001) = Inl ?e"
    by (simp add: scenario_defs eval_defs)
  then have h: "service_get ?s ''api-key'' None None 1001 1001 = (Inl ?e, ?s')"
    by (simp add: prod_eq_iff)
  have g: "getBackend ?s None = Inr emptied_backend"
    by (simp add: scenario_defs eval_defs)
  have en: "cacheEnabled (options ?s) \<noteq> Some False"
    by (simp add: scenario_defs eval_defs)
  note t = failed_get_stores_nothing [OF h]
  from t g en
  have "Map_get (cache (secretCache ?s'))
          (getCacheKey (backend_name emptied_backend) ''api-key'' (Some (nullish None ''latest'')))
          = None"
    and "\<forall>t t'. fst (service_get ?s' ''api-key'' None None t t') =
           backend_get emptied_backend ''api-key'' (Some (nullish None ''latest''))"
    by blast+
  then have "Map_get (cache (secretCache ?s')) ''memory:api-key:latest'' = None"
    and "fst (service_get ?s' ''api-key'' None None 2000 2000) = Inl ?e"
    by (simp_all add: backend_names backend_answers nullish_def getCacheKey_def)
  with f g show ?thesis by simp
qed


text \<open>
  Claim C10 as stated fails where the failing \<open>get\<close> finds an expired entry: in the
  same run the cache holds one entry before the failing \<open>get\<close> and none after it.
\<close>

theorem failed_get_evicts_counterexample:
  "fst (service_get (registerBackend (after_first_get ttl_service) emptied_backend)
          ''api-key'' None None 1001 1001) =
     Inl (SecretNotFoundError ''api-key'' ''memory'' (Some ''latest'')) \<and>
   cache (secretCache (registerBackend (after_first_get ttl_service) emptied_backend)) =
     [(''memory:api-key:latest'', \<lparr>entry_value = ''test-api-key-value'', cachedAt = 0\<rparr>)] \<and>
   cache (secretCache (snd (service_get
            (registerBackend (after_first_get ttl_service) emptied_backend)
            ''api-key'' None None 1001 1001))) = []"
  by (simp add: scenario_defs eval_defs)

section \<open>Startup validation\<close>

lemma validate_loop_attempt_all:
  "validate_loop s clock i reqs errors =
     (errors @ failures (fst (attempt_all s clock i reqs)),
      snd (attempt_all s clock i reqs))"
proof (induction reqs arbitrary: s i errors)
  case Nil
  then show ?case by simp
next
  case (Cons secret rest)
  obtain r s' where g: "service_get s (req_name secret) (req_version secret) (req_backend secret)
                          (fst (clock i)) (snd (clock i)) = (r, s')"
    by (cases "service_get s (req_name secret) (req_version secret) (req_backend secret)
                  (fst (clock i)) (snd (clock i))")
  show ?case
    by (cases r) (simp_all add: g Cons.IH Let_def)
qed

lemma length_attempt_all: "length (fst (attempt_all s clock i reqs)) = length reqs"
  by (induction reqs arbitrary: s i) (simp_all add: Let_def)

lemma join_contains: "x \<in> set xs \<Longrightarrow> \<exists>p q. join sep xs = p @ x @ q"
proof (induction sep xs rule: join.induct)
  case (1 sep)
  then show ?case by simp
next
  case (2 sep y)
  then have "join sep [y] = [] @ x @ []" by simp
  then show ?case by blast
next
  case (3 sep y z zs)
  show ?case
  proof (cases "x = y")
    case True
    then have "join sep (y # z # zs) = [] @ x @ (sep @ join sep (z # zs))" by simp
    then show ?thesis by blast
  next
    case False
    with 3 obtain p q where "join sep (z # zs) = p @ x @ q" by auto
    then have "join sep (y # z # zs) = (y @ sep @ p) @ x @ q" by simp
    then show ?thesis by blast
  qed
qed

lemma validation_message_contains:
  assumes "e \<in> set errors"
  shows "\<exists>p q. validation_message errors = p @ message e @ q"
proof -
  have "''  - '' @ message e \<in> set (map (\<lambda>e. ''  - '' @ message e) errors)"
    using assms by auto
  then obtain p q where
    "join newline (map (\<lambda>e. ''  - '' @ message e) errors) = p @ (''  - '' @ message e) @ q"
    using join_contains by blast
  then have "validation_message errors =
     (''Failed to validate '' @ string_of_nat (length errors) @ '' secret(s):'' @ newline @ p
        @ ''  - '') @ message e @ q"
    by (simp add: validation_message_def)
  then show ?thesis by blast
qed

lemma validateAllSecrets_attempt_all:
  "validateAllSecrets s registry clock =
     (if failures (fst (attempt_all s clock 0 (getAll registry))) = [] then Inr ()
      else Inl (Error (validation_message (failures (fst (attempt_all s clock 0 (getAll registry)))))),
      snd (attempt_all s clock 0 (getAll registry)))"
  by (cases "getAll registry")
     (simp_all add: validateAllSecrets_def validate_loop_attempt_all Let_def)

text \<open>
  Claim C1. \<open>onModuleInit\<close> validates unless \<open>validateOnStartup\<close> is \<open>false\<close>.
  Validation attempts \<open>get(name, version, backend)\<close> for every requirement of the
  registry, one outcome per requirement whatever the earlier outcomes were, and fails
  exactly when some attempt failed, with one error whose message gives the number of
  failures and the message of each, in order. With an empty registry it succeeds and
  leaves the service as it is.
\<close>

theorem startup_validation_aggregates:
  "onModuleInit s registry clock =
     (if validateOnStartup (options s) = Some False then (Inr (), s)
      else (if failures (fst (attempt_all s clock 0 (getAll registry))) = [] then Inr ()
            else Inl (Error (validation_message
                               (failures (fst (attempt_all s clock 0 (getAll registry)))))),
            snd (attempt_all s clock 0 (getAll registry)))) \<and>
   length (fst (attempt_all s clock 0 (getAll registry))) = length (getAll registry) \<and>
   validation_message errors =
     ''Failed to validate '' @ string_of_nat (length errors) @ '' secret(s):'' @ newline
       @ join newline (map (\<lambda>e. ''  - '' @ message e) errors) \<and>
   (\<forall>e \<in> set errors. \<exists>p q. validation_message errors = p @ message e @ q) \<and>
   (getAll registry = [] \<longrightarrow> onModuleInit s registry clock = (Inr (), s))"
proof -
  have a: "onModuleInit s registry clock =
     (if validateOnStartup (options s) = Some False then (Inr (), s)
      else (if failures (fst (attempt_all s clock 0 (getAll registry))) = [] then Inr ()
            else Inl (Error (validation_message
                               (failures (fst (attempt_all s clock 0 (getAll registry)))))),
            snd (attempt_all s clock 0 (getAll registry))))"
    by (simp add: onModuleInit_def validateAllSecrets_attempt_all)
  have b: "getAll registry = [] \<longrightarrow> onModuleInit s registry clock = (Inr (), s)"
    by (simp add: onModuleInit_def validateAllSecrets_def)
  have c: "validation_message errors =
     ''Failed to validate '' @ string_of_nat (length errors) @ '' secret(s):'' @ newline
       @ join newline (map (\<lambda>e. ''  - '' @ message e) errors)"
    by (simp add: validation_message_def)
  have d: "\<forall>e \<in> set errors. \<exists>p q. validation_message errors = p @ message e @ q"
    using validation_message_contains by blast
  from a b c d length_attempt_all show ?thesis by blast
qed

text \<open>
  An instance of the theorem above: of three requirements, the first is missing from
  the in-memory backend, the second is there and the third names a backend that is
  not registered; startup fails with one error that counts two failures and lists
  both messages. With an empty registry startup succeeds.
\<close>

theorem startup_validation_aggregates_witness:
  "length (getAll failing_registry) = 3 \<and>
   fst (onModuleInit validating_service failing_registry (\<lambda>i. (0, 0))) =
     Inl (Error (''Failed to validate 2 secret(s):'' @ newline
                  @ ''  - Secret '' @ quote @ ''missing-secret'' @ quote
                  @ '' not found in backend '' @ quote @ ''memory'' @ quote
                  @ '' (version: latest)'' @ newline
                  @ ''  - Unknown secret backend: '' @ quote @ ''vault'' @ quote
                  @ ''. Available backends: memory'')) \<and>
   onModuleInit validating_service [] (\<lambda>i. (0, 0)) = (Inr (), validating_service)"
proof -
  let ?errors = "[SecretNotFoundError ''missing-secret'' ''memory'' (Some ''latest''),
                  Error (''Unknown secret backend: '' @ quote @ ''vault'' @ quote
                           @ ''. Available backends: memory'')]"
  have v: "validateOnStartup (options validating_service) \<noteq> Some False"
    by (simp add: validating_service_def SecretManagerService_new_def Let_def)
  have two: "string_of_nat (Suc (Suc 0)) = ''2''"
    by (simp add: string_of_nat.simps [of "Suc (Suc 0)"] digit_def)
  note t = startup_validation_aggregates
             [of validating_service failing_registry "\<lambda>i. (0, 0)" ?errors]
  from t v have "fst (onModuleInit validating_service failing_registry (\<lambda>i. (0, 0))) =
       Inl (Error (validation_message ?errors))"
    by (simp add: failing_registry_attempts)
  moreover from t have "validation_message ?errors =
      ''Failed to validate '' @ string_of_nat (length ?errors) @ '' secret(s):'' @ newline
       @ join newline (map (\<lambda>e. ''  - '' @ message e) ?errors)"
    by blast
  moreover have e: "getAll [] = ([] :: SecretRequirement list)"
    by (simp add: getAll_def Map_values_def)
  moreover from startup_validation_aggregates [of validating_service "[]" "\<lambda>i. (0, 0)" "[]"] e
  have "onModuleInit validating_service [] (\<lambda>i. (0, 0)) = (Inr (), validating_service)"
    by blast
  ultimately show ?thesis
    by (simp add: failing_registry_all two truthy_def)
qed


end
